theory Spec2Isabelle
  imports Main
begin

section \<open>Go error values\<close>

text \<open>
  The unit of work builds its errors with \<open>errors.New\<close>, \<open>fmt.Errorf\<close> with one \<open>%w\<close>
  verb and \<open>errors.Join\<close>, and its callers inspect them with \<open>errors.Is\<close>. An error value is
  therefore a tree: a leaf made by \<open>errors.New\<close> (a pointer, so it carries an identity next to its
  text), a node wrapping one error under a message, or a node joining several errors. A \<open>nil\<close>
  error is \<open>None\<close> of \<open>err option\<close>. Equal terms stand for the same error value; error types
  that are not comparable or that bring an \<open>Is\<close> method of their own are not modelled.
\<close>

datatype err =
    ErrorString nat string
  | WrapError string err
  | JoinError "err list"

fun join_lines :: "string list \<Rightarrow> string" where
  "join_lines [] = []"
| "join_lines [s] = s"
| "join_lines (s # t # ss) = s @ [CHR 0x0A] @ join_lines (t # ss)"

text \<open>The method \<open>Error()\<close> of the three error types.\<close>

fun err_Error :: "err \<Rightarrow> string" where
  "err_Error (ErrorString i s) = s"
| "err_Error (WrapError m e) = m"
| "err_Error (JoinError es) = join_lines (map err_Error es)"

text \<open>\<open>fmt.Errorf(prefix + "%w", e)\<close> for a non-nil \<open>e\<close>.\<close>

definition fmt_Errorf_w :: "string \<Rightarrow> err \<Rightarrow> err" where
  "fmt_Errorf_w prefix e = WrapError (prefix @ err_Error e) e"

text \<open>\<open>errors.Join\<close> drops the nil arguments and returns nil when none is left.\<close>

definition errors_Join :: "err option list \<Rightarrow> err option" where
  "errors_Join errs =
     (case List.map_filter id errs of
        [] \<Rightarrow> None
      | e # es \<Rightarrow> Some (JoinError (e # es)))"

text \<open>The unexported loop \<open>is\<close> of package \<open>errors\<close>: compare, then unwrap.\<close>

fun is_chain :: "err \<Rightarrow> err \<Rightarrow> bool" where
  "is_chain (ErrorString i s) target = (ErrorString i s = target)"
| "is_chain (WrapError m e) target = (WrapError m e = target \<or> is_chain e target)"
| "is_chain (JoinError es) target =
     (JoinError es = target \<or> list_ex (\<lambda>e. is_chain e target) es)"

fun errors_Is :: "err option \<Rightarrow> err option \<Rightarrow> bool" where
  "errors_Is (Some e) (Some target) = is_chain e target"
| "errors_Is e target = (e = target)"

text \<open>Line 13: the package variable \<open>ErrRollback\<close>, the one leaf with identity 0.\<close>

definition ErrRollback :: err where
  "ErrRollback = ErrorString 0 ''rollback''"

text \<open>Lines 88 to 90. Every call site passes a non-nil error.\<close>

definition stateRollbackError :: "err \<Rightarrow> err option" where
  "stateRollbackError e =
     errors_Join [Some (fmt_Errorf_w ''state rollback: '' e), Some ErrRollback]"

section \<open>Collaborators\<close>

text \<open>
  Everything outside the package is a parameter. The collaborators act on a world \<open>'w\<close> of
  which the unit of work knows nothing: a call takes the world and returns its result with the
  world it leaves. Methods of the collaborator interfaces (\<open>Begin\<close>, \<open>Rollback\<close>,
  \<open>CollectEvents\<close>, \<open>PublishEvents\<close>) and the logger are modelled by their Go signatures,
  the contract their interface states: they return. A panic raised inside one of them is
  outside this model. The two function values supplied by the caller, the context factory and
  the body, either return or panic with a value of type \<open>'p\<close> (a non-nil panic value).
\<close>

datatype ('a, 'p) outcome = Returns 'a | Panics 'p

text \<open>\<open>context.Context\<close>: the ambient context of the caller, or a child derived from one
  by \<open>context.WithCancel\<close>.\<close>

datatype Context = Ambient nat | WithCancel Context

text \<open>Modelled from the spec: the transaction handle \<open>storage.DBContext\<close>, whose declaration
  is in another package; of its methods the unit of work uses \<open>Rollback() error\<close> only.\<close>

record 'w DBContext =
  Rollback :: "'w \<Rightarrow> err option \<times> 'w"

text \<open>Modelled from the spec: the storage backend \<open>storage.DB\<close>, whose declaration is in
  another package; \<open>Begin(ctx)\<close> returns a handle and an error.\<close>

record 'w DB =
  Begin :: "Context \<Rightarrow> 'w \<Rightarrow> ('w DBContext \<times> err option) \<times> 'w"

text \<open>Lines 16 to 20: the interface \<open>AtomicContext\<close>, as the record of its methods. The event
  type \<open>domain.Event\<close> is the parameter \<open>'e\<close>.\<close>

record ('w, 'e) AtomicContext =
  Commit :: "'w \<Rightarrow> err option \<times> 'w"
  Close :: "'w \<Rightarrow> err option \<times> 'w"
  CollectEvents :: "'w \<Rightarrow> 'e list \<times> 'w"

text \<open>Lines 22 to 24: the interface \<open>MessageBus\<close>.\<close>

record ('w, 'e) MessageBus =
  PublishEvents :: "'e list \<Rightarrow> 'w \<Rightarrow> err option \<times> 'w"

text \<open>Lines 26 to 31: the struct \<open>UnitOfWork\<close>. The field \<open>logger\<close> has no counterpart:
  a call of \<open>logger.Error\<close> is an entry of the call log below.\<close>

record ('w, 'e, 'p) UnitOfWork =
  db :: "'w DB"
  newContext ::
    "'w DBContext \<Rightarrow> 'w \<Rightarrow> (('w, 'e) AtomicContext \<times> err option, 'p) outcome \<times> 'w"
  msgBus :: "('w, 'e) MessageBus"

text \<open>Lines 33 to 45: the constructor \<open>New\<close>.\<close>

definition New ::
  "'w DB \<Rightarrow>
   ('w DBContext \<Rightarrow> 'w \<Rightarrow> (('w, 'e) AtomicContext \<times> err option, 'p) outcome \<times> 'w) \<Rightarrow>
   ('w, 'e) MessageBus \<Rightarrow> ('w, 'e, 'p) UnitOfWork" where
  "New d newCtx bus = \<lparr>db = d, newContext = newCtx, msgBus = bus\<rparr>"

section \<open>The call log\<close>

text \<open>
  What \<open>Atomic\<close> does to its collaborators is observed through the list of the calls it makes,
  in the order it makes them. \<open>CallCommit\<close> and \<open>CallClose\<close> name the two methods of
  \<open>AtomicContext\<close> for which the source has no call site.
\<close>

datatype 'e call =
    CallBegin
  | CallNewContext
  | CallDo
  | CallRollback
  | CallCollectEvents
  | CallPublishEvents "'e list"
  | CallCommit
  | CallClose
  | CallLoggerError string err
  | CallCancel

record ('w, 'e) st =
  world :: 'w
  trace :: "'e call list"

definition invoke :: "'e call \<Rightarrow> ('w \<Rightarrow> 'a \<times> 'w) \<Rightarrow> ('w, 'e) st \<Rightarrow> 'a \<times> ('w, 'e) st" where
  "invoke c f s =
     (case f (world s) of (r, w') \<Rightarrow> (r, \<lparr>world = w', trace = trace s @ [c]\<rparr>))"

definition logger_Error :: "string \<Rightarrow> err \<Rightarrow> ('w, 'e) st \<Rightarrow> ('w, 'e) st" where
  "logger_Error msg e s = s\<lparr>trace := trace s @ [CallLoggerError msg e]\<rparr>"

section \<open>Atomic\<close>

text \<open>Lines 63 to 65 and again lines 74 to 76: roll the handle back and log a failure of
  the rollback; the error of the rollback goes nowhere else.\<close>

definition rollback_logged :: "'w DBContext \<Rightarrow> ('w, 'e) st \<Rightarrow> ('w, 'e) st" where
  "rollback_logged tx s =
     (case invoke CallRollback (Rollback tx) s of
        (None, s1) \<Rightarrow> s1
      | (Some e, s1) \<Rightarrow> logger_Error ''failed to rollback transaction'' e s1)"

text \<open>Lines 73 to 85: the body is run, then either rolled back or its events published.\<close>

definition run_do ::
  "('w, 'e, 'p) UnitOfWork \<Rightarrow> 'w DBContext \<Rightarrow> ('w, 'e) AtomicContext \<Rightarrow> Context \<Rightarrow>
   (Context \<Rightarrow> ('w, 'e) AtomicContext \<Rightarrow> 'w \<Rightarrow> (err option, 'p) outcome \<times> 'w) \<Rightarrow>
   ('w, 'e) st \<Rightarrow> (err option, 'p) outcome \<times> ('w, 'e) st" where
  "run_do uow tx atomicCtx txCtx do s =
     (case invoke CallDo (do txCtx atomicCtx) s of
        (Panics r, s1) \<Rightarrow> (Panics r, s1)
      | (Returns (Some e), s1) \<Rightarrow> (Returns (stateRollbackError e), rollback_logged tx s1)
      | (Returns None, s1) \<Rightarrow>
          (case invoke CallCollectEvents (CollectEvents atomicCtx) s1 of
             (events, s2) \<Rightarrow>
               (case invoke (CallPublishEvents events) (PublishEvents (msgBus uow) events) s2 of
                  (Some e, s3) \<Rightarrow> (Returns (Some e), logger_Error ''failed to publish events'' e s3)
                | (None, s3) \<Rightarrow> (Returns None, s3))))"

text \<open>Line 71: the deferred \<open>cancel()\<close>, run on every way out of the lines after it.\<close>

definition deferred_cancel ::
  "(err option, 'p) outcome \<times> ('w, 'e) st \<Rightarrow> (err option, 'p) outcome \<times> ('w, 'e) st" where
  "deferred_cancel x = (case x of (res, s) \<Rightarrow> (res, s\<lparr>trace := trace s @ [CallCancel]\<rparr>))"

text \<open>Lines 61 to 68: the deferred function, run last: when the function is panicking it
  rolls back and panics again with the value it recovered.\<close>

definition deferred_recover ::
  "'w DBContext \<Rightarrow> (err option, 'p) outcome \<times> ('w, 'e) st \<Rightarrow>
   (err option, 'p) outcome \<times> ('w, 'e) st" where
  "deferred_recover tx x =
     (case x of
        (Panics r, s) \<Rightarrow> (Panics r, rollback_logged tx s)
      | (Returns v, s) \<Rightarrow> (Returns v, s))"

text \<open>Lines 47 to 86.\<close>

definition Atomic ::
  "('w, 'e, 'p) UnitOfWork \<Rightarrow> Context \<Rightarrow>
   (Context \<Rightarrow> ('w, 'e) AtomicContext \<Rightarrow> 'w \<Rightarrow> (err option, 'p) outcome \<times> 'w) \<Rightarrow>
   'w \<Rightarrow> (err option, 'p) outcome \<times> ('w, 'e) st" where
  "Atomic uow ctx do w =
     (case invoke CallBegin (Begin (db uow) ctx) \<lparr>world = w, trace = []\<rparr> of
        ((tx, Some e), s1) \<Rightarrow> (Returns (stateRollbackError e), s1)
      | ((tx, None), s1) \<Rightarrow>
          (case invoke CallNewContext (newContext uow tx) s1 of
             (Panics r, s2) \<Rightarrow> (Panics r, s2)
           | (Returns (atomicCtx, Some e), s2) \<Rightarrow> (Returns (stateRollbackError e), s2)
           | (Returns (atomicCtx, None), s2) \<Rightarrow>
               deferred_recover tx
                 (deferred_cancel (run_do uow tx atomicCtx (WithCancel ctx) do s2))))"

section \<open>Observations on a run\<close>

definition result :: "'r \<times> ('w, 'e) st \<Rightarrow> 'r" where
  "result x = fst x"

definition calls :: "'r \<times> ('w, 'e) st \<Rightarrow> 'e call list" where
  "calls x = trace (snd x)"

text \<open>The batches handed to \<open>PublishEvents\<close>, one entry for each call.\<close>

fun published :: "'e call list \<Rightarrow> 'e list list" where
  "published [] = []"
| "published (CallPublishEvents es # cs) = es # published cs"
| "published (c # cs) = published cs"

text \<open>A run returns, and the error it returns matches \<open>target\<close> under \<open>errors.Is\<close>.\<close>

definition returns_error_Is :: "(err option, 'p) outcome \<Rightarrow> err \<Rightarrow> bool" where
  "returns_error_Is res target =
     (case res of Returns e \<Rightarrow> errors_Is e (Some target) | Panics p \<Rightarrow> False)"

text \<open>The log entries that follow a rollback and a publication with the given result.\<close>

definition rollback_log :: "err option \<Rightarrow> 'e call list" where
  "rollback_log r =
     (case r of None \<Rightarrow> [] | Some e \<Rightarrow> [CallLoggerError ''failed to rollback transaction'' e])"

definition publish_log :: "err option \<Rightarrow> 'e call list" where
  "publish_log r =
     (case r of None \<Rightarrow> [] | Some e \<Rightarrow> [CallLoggerError ''failed to publish events'' e])"

section \<open>Example collaborators\<close>

text \<open>
  A small world on which the theorems below are instantiated: the events the atomic context
  holds, the number of rollbacks the storage has seen, and the batches the bus has delivered.
  The body appends its events to the buffer of the context; \<open>CollectEvents\<close> drains it.
\<close>

record ex_world =
  buffer :: "nat list"
  rollbacks :: nat
  delivered :: "nat list list"

definition ex_w0 :: ex_world where
  "ex_w0 = \<lparr>buffer = [], rollbacks = 0, delivered = []\<rparr>"

definition ex_tx :: "err option \<Rightarrow> ex_world DBContext" where
  "ex_tx r = \<lparr>Rollback = (\<lambda>w. (r, w\<lparr>rollbacks := rollbacks w + 1\<rparr>))\<rparr>"

definition ex_db :: "err option \<Rightarrow> err option \<Rightarrow> ex_world DB" where
  "ex_db f r = \<lparr>Begin = (\<lambda>ctx w. ((ex_tx r, f), w))\<rparr>"

definition ex_actx :: "(ex_world, nat) AtomicContext" where
  "ex_actx =
     \<lparr>Commit = (\<lambda>w. (None, w)),
      Close = (\<lambda>w. (None, w)),
      CollectEvents = (\<lambda>w. (buffer w, w\<lparr>buffer := []\<rparr>))\<rparr>"

definition ex_factory ::
  "((ex_world, nat) AtomicContext \<times> err option, nat) outcome \<Rightarrow> ex_world DBContext \<Rightarrow>
   ex_world \<Rightarrow> ((ex_world, nat) AtomicContext \<times> err option, nat) outcome \<times> ex_world" where
  "ex_factory res tx w = (res, w)"

definition ex_bus :: "err option \<Rightarrow> (ex_world, nat) MessageBus" where
  "ex_bus g =
     \<lparr>PublishEvents =
        (\<lambda>es w. case g of None \<Rightarrow> (None, w\<lparr>delivered := delivered w @ [es]\<rparr>)
                 | Some e \<Rightarrow> (Some e, w))\<rparr>"

definition ex_do ::
  "nat list \<Rightarrow> (err option, nat) outcome \<Rightarrow> Context \<Rightarrow> (ex_world, nat) AtomicContext \<Rightarrow>
   ex_world \<Rightarrow> (err option, nat) outcome \<times> ex_world" where
  "ex_do es res ctx a w = (res, w\<lparr>buffer := buffer w @ es\<rparr>)"

definition ex_E :: err where
  "ex_E = ErrorString 1 ''insufficient funds''"

definition ex_F :: err where
  "ex_F = ErrorString 2 ''connection refused''"

definition ex_G :: err where
  "ex_G = ErrorString 3 ''broker unavailable''"

definition ex_R :: err where
  "ex_R = ErrorString 4 ''transaction already closed''"

definition ex_uow :: "(ex_world, nat, nat) UnitOfWork" where
  "ex_uow = New (ex_db None None) (ex_factory (Returns (ex_actx, None))) (ex_bus None)"

text \<open>The error a nested, rolled back \<open>Atomic\<close> returns: what a sink that runs its handlers
  inside units of work of their own passes on when a handler fails.\<close>

definition ex_nested :: err where
  "ex_nested =
     JoinError [WrapError ''state rollback: handler failed'' (ErrorString 5 ''handler failed''),
                ErrRollback]"

text \<open>A unit of work over the example collaborators: the error of \<open>Begin\<close>, the error of
  \<open>Rollback\<close>, the outcome of the factory and the error of \<open>PublishEvents\<close>.\<close>

definition ex_uow_with ::
  "err option \<Rightarrow> err option \<Rightarrow>
   ((ex_world, nat) AtomicContext \<times> err option, nat) outcome \<Rightarrow> err option \<Rightarrow>
   (ex_world, nat, nat) UnitOfWork" where
  "ex_uow_with f r c g = New (ex_db f r) (ex_factory c) (ex_bus g)"

text \<open>The unit of work whose factory hands out the same contexts with other \<open>Commit\<close> and
  \<open>Close\<close> methods.\<close>

definition with_Commit_Close ::
  "('w \<Rightarrow> err option \<times> 'w) \<Rightarrow> ('w \<Rightarrow> err option \<times> 'w) \<Rightarrow>
   ('w, 'e, 'p) UnitOfWork \<Rightarrow> ('w, 'e, 'p) UnitOfWork" where
  "with_Commit_Close c d uow =
     uow\<lparr>newContext :=
       (\<lambda>tx w. case newContext uow tx w of
                  (Returns (a, e), w') \<Rightarrow> (Returns (a\<lparr>Commit := c, Close := d\<rparr>, e), w')
                | (Panics p, w') \<Rightarrow> (Panics p, w'))\<rparr>"

lemmas ex_defs = ex_w0_def ex_tx_def ex_db_def ex_actx_def ex_factory_def ex_bus_def ex_do_def
  ex_E_def ex_F_def ex_G_def ex_R_def ex_uow_def New_def ex_nested_def ex_uow_with_def

section \<open>Errors built by \<open>stateRollbackError\<close>\<close>

lemma stateRollbackError_eq:
  "stateRollbackError e =
     Some (JoinError [WrapError (''state rollback: '' @ err_Error e) e, ErrRollback])"
  by (simp add: stateRollbackError_def errors_Join_def fmt_Errorf_w_def List.map_filter_simps)

lemma is_chain_refl: "is_chain e e"
  by (cases e) simp_all

lemma stateRollbackError_marker: "errors_Is (stateRollbackError e) (Some ErrRollback)"
  by (simp add: stateRollbackError_eq is_chain_refl)

lemma stateRollbackError_cause: "errors_Is (stateRollbackError e) (Some e)"
  by (simp add: stateRollbackError_eq is_chain_refl)

section \<open>The paths through \<open>Atomic\<close>\<close>

text \<open>
  One lemma for each way out of \<open>Atomic\<close>: given what the collaborators answer on the worlds
  they are called on, the result, the final world and the whole call log.
\<close>

lemma rollback_logged_eq:
  "rollback_logged tx s =
     \<lparr>world = snd (Rollback tx (world s)),
      trace = trace s @ CallRollback # rollback_log (fst (Rollback tx (world s)))\<rparr>"
  by (cases "Rollback tx (world s)")
     (simp add: rollback_logged_def invoke_def logger_Error_def rollback_log_def
        split: option.split)

lemma Atomic_begin_fails:
  assumes "Begin (db uow) ctx w = ((tx, Some f), w1)"
  shows "Atomic uow ctx do w =
           (Returns (stateRollbackError f), \<lparr>world = w1, trace = [CallBegin]\<rparr>)"
  using assms by (simp add: Atomic_def invoke_def)

lemma Atomic_factory_fails:
  assumes "Begin (db uow) ctx w = ((tx, None), w1)"
    and "newContext uow tx w1 = (Returns (actx, Some e), w2)"
  shows "Atomic uow ctx do w =
           (Returns (stateRollbackError e),
            \<lparr>world = w2, trace = [CallBegin, CallNewContext]\<rparr>)"
  using assms by (simp add: Atomic_def invoke_def)

lemma Atomic_factory_panics:
  assumes "Begin (db uow) ctx w = ((tx, None), w1)"
    and "newContext uow tx w1 = (Panics p, w2)"
  shows "Atomic uow ctx do w = (Panics p, \<lparr>world = w2, trace = [CallBegin, CallNewContext]\<rparr>)"
  using assms by (simp add: Atomic_def invoke_def)


lemma Atomic_do_fails:
  assumes "Begin (db uow) ctx w = ((tx, None), w1)"
    and "newContext uow tx w1 = (Returns (actx, None), w2)"
    and "do (WithCancel ctx) actx w2 = (Returns (Some e), w3)"
  shows "Atomic uow ctx do w =
           (Returns (stateRollbackError e),
            \<lparr>world = snd (Rollback tx w3),
             trace = [CallBegin, CallNewContext, CallDo, CallRollback]
                     @ rollback_log (fst (Rollback tx w3)) @ [CallCancel]\<rparr>)"
  using assms
  by (simp add: Atomic_def invoke_def run_do_def deferred_cancel_def deferred_recover_def
      rollback_logged_eq stateRollbackError_eq)

lemma Atomic_do_ok:
  assumes "Begin (db uow) ctx w = ((tx, None), w1)"
    and "newContext uow tx w1 = (Returns (actx, None), w2)"
    and "do (WithCancel ctx) actx w2 = (Returns None, w3)"
    and "CollectEvents actx w3 = (es, w4)"
    and "PublishEvents (msgBus uow) es w4 = (g, w5)"
  shows "Atomic uow ctx do w =
           (Returns g,
            \<lparr>world = w5,
             trace = [CallBegin, CallNewContext, CallDo, CallCollectEvents, CallPublishEvents es]
                     @ publish_log g @ [CallCancel]\<rparr>)"
  using assms
  by (cases g)
     (simp_all add: Atomic_def invoke_def run_do_def deferred_cancel_def deferred_recover_def
      logger_Error_def publish_log_def)

lemma published_append: "published (xs @ ys) = published xs @ published ys"
  by (induction xs rule: published.induct) simp_all

lemma published_rollback_log: "published (rollback_log r) = []"
  by (cases r) (simp_all add: rollback_log_def)


lemma count_rollback_log: "count_list (rollback_log r) CallRollback = 0"
  by (cases r) (simp_all add: rollback_log_def)

lemma count_publish_log: "count_list (publish_log r) CallRollback = 0"
  by (cases r) (simp_all add: publish_log_def)

lemma rollback_log_Some:
  "rollback_log (Some e) = [CallLoggerError ''failed to rollback transaction'' e]"
  by (simp add: rollback_log_def)

text \<open>
  \<open>Atomic\<close> itself makes no use of \<open>Commit\<close> and \<open>Close\<close>: with a body that does not tell
  them apart, any two implementations of them give the same run.
\<close>

lemma Atomic_ignores_Commit_Close:
  assumes "\<And>k a w. do k (a\<lparr>Commit := c, Close := d\<rparr>) w = do k a w"
  shows "Atomic (with_Commit_Close c d uow) ctx do w = Atomic uow ctx do w"
  using assms
  by (simp add: with_Commit_Close_def Atomic_def invoke_def run_do_def
      split: prod.splits option.splits outcome.splits)

section \<open>The success path\<close>



section \<open>The body fails or panics\<close>

text \<open>
  Claim C2. When the body returns a non-nil error \<open>E\<close>, \<open>Rollback\<close> is called exactly once,
  \<open>PublishEvents\<close> is never called, and \<open>Atomic\<close> returns an error matching both
  \<open>ErrRollback\<close> and \<open>E\<close> under \<open>errors.Is\<close>. Nothing is assumed of what \<open>Rollback\<close>
  returns: when it fails with \<open>re\<close>, that error is logged, and the error returned is the same.
\<close>

theorem Atomic_body_error_rolls_back:
  assumes "Begin (db uow) ctx w = ((tx, None), w1)"
    and "newContext uow tx w1 = (Returns (actx, None), w2)"
    and "do (WithCancel ctx) actx w2 = (Returns (Some E), w3)"
  shows "count_list (calls (Atomic uow ctx do w)) CallRollback = 1 \<and>
         published (calls (Atomic uow ctx do w)) = [] \<and>
         returns_error_Is (result (Atomic uow ctx do w)) ErrRollback \<and>
         returns_error_Is (result (Atomic uow ctx do w)) E \<and>
         (\<forall>re. fst (Rollback tx w3) = Some re \<longrightarrow>
            CallLoggerError ''failed to rollback transaction'' re
              \<in> set (calls (Atomic uow ctx do w)))"
  using Atomic_do_fails [where do = "do", OF assms]
  by (simp add: result_def calls_def returns_error_Is_def published_append
      published_rollback_log count_rollback_log stateRollbackError_marker
      stateRollbackError_cause rollback_log_Some)

theorem Atomic_body_error_rolls_back_witness:
  "count_list (calls
     (Atomic (New (ex_db None (Some ex_R)) (ex_factory (Returns (ex_actx, None))) (ex_bus None))
        (Ambient 0) (ex_do [10] (Returns (Some ex_E))) ex_w0)) CallRollback = 1 \<and>
   published (calls
     (Atomic (New (ex_db None (Some ex_R)) (ex_factory (Returns (ex_actx, None))) (ex_bus None))
        (Ambient 0) (ex_do [10] (Returns (Some ex_E))) ex_w0)) = [] \<and>
   returns_error_Is (result
     (Atomic (New (ex_db None (Some ex_R)) (ex_factory (Returns (ex_actx, None))) (ex_bus None))
        (Ambient 0) (ex_do [10] (Returns (Some ex_E))) ex_w0)) ErrRollback \<and>
   returns_error_Is (result
     (Atomic (New (ex_db None (Some ex_R)) (ex_factory (Returns (ex_actx, None))) (ex_bus None))
        (Ambient 0) (ex_do [10] (Returns (Some ex_E))) ex_w0)) ex_E \<and>
   CallLoggerError ''failed to rollback transaction'' ex_R \<in> set (calls
     (Atomic (New (ex_db None (Some ex_R)) (ex_factory (Returns (ex_actx, None))) (ex_bus None))
        (Ambient 0) (ex_do [10] (Returns (Some ex_E))) ex_w0))"
  using Atomic_body_error_rolls_back
    [of "New (ex_db None (Some ex_R)) (ex_factory (Returns (ex_actx, None))) (ex_bus None)"
        "Ambient 0" ex_w0 "ex_tx (Some ex_R)" ex_w0 ex_actx ex_w0
        "ex_do [10] (Returns (Some ex_E))" ex_E "ex_w0\<lparr>buffer := [10]\<rparr>"]
  by (simp add: ex_defs)



section \<open>Failures before the body\<close>

text \<open>
  Claim C3. When \<open>Begin\<close> fails with \<open>F\<close>, \<open>Begin\<close> is the only call \<open>Atomic\<close> makes: the
  body, the context factory and the sink are not called, and the error returned matches both
  \<open>F\<close> and \<open>ErrRollback\<close>.
\<close>

theorem Atomic_begin_failure_short_circuits:
  assumes "Begin (db uow) ctx w = ((tx, Some F), w1)"
  shows "calls (Atomic uow ctx do w) = [CallBegin] \<and>
         CallDo \<notin> set (calls (Atomic uow ctx do w)) \<and>
         CallNewContext \<notin> set (calls (Atomic uow ctx do w)) \<and>
         published (calls (Atomic uow ctx do w)) = [] \<and>
         returns_error_Is (result (Atomic uow ctx do w)) F \<and>
         returns_error_Is (result (Atomic uow ctx do w)) ErrRollback"
  using Atomic_begin_fails [where do = "do", OF assms]
  by (simp add: result_def calls_def returns_error_Is_def stateRollbackError_marker
      stateRollbackError_cause)

theorem Atomic_begin_failure_short_circuits_witness:
  "calls (Atomic (New (ex_db (Some ex_F) None) (ex_factory (Returns (ex_actx, None))) (ex_bus None))
       (Ambient 0) (ex_do [10] (Returns None)) ex_w0) = [CallBegin] \<and>
   returns_error_Is (result
     (Atomic (New (ex_db (Some ex_F) None) (ex_factory (Returns (ex_actx, None))) (ex_bus None))
       (Ambient 0) (ex_do [10] (Returns None)) ex_w0)) ex_F \<and>
   returns_error_Is (result
     (Atomic (New (ex_db (Some ex_F) None) (ex_factory (Returns (ex_actx, None))) (ex_bus None))
       (Ambient 0) (ex_do [10] (Returns None)) ex_w0)) ErrRollback"
  using Atomic_begin_failure_short_circuits
    [of "New (ex_db (Some ex_F) None) (ex_factory (Returns (ex_actx, None))) (ex_bus None)"
        "Ambient 0" ex_w0 "ex_tx None" ex_F ex_w0 "ex_do [10] (Returns None)"]
  by (simp add: ex_defs)

text \<open>
  Claim C7. When the context factory returns a non-nil error \<open>E\<close> after \<open>Begin\<close> has
  succeeded, \<open>Atomic\<close> returns an error matching both \<open>E\<close> and \<open>ErrRollback\<close>, and the handle
  it holds is not rolled back: after the call of the factory \<open>Atomic\<close> calls nothing.
\<close>

theorem Atomic_factory_failure_no_rollback:
  assumes "Begin (db uow) ctx w = ((tx, None), w1)"
    and "newContext uow tx w1 = (Returns (actx, Some E), w2)"
  shows "returns_error_Is (result (Atomic uow ctx do w)) E \<and>
         returns_error_Is (result (Atomic uow ctx do w)) ErrRollback \<and>
         count_list (calls (Atomic uow ctx do w)) CallRollback = 0 \<and>
         calls (Atomic uow ctx do w) = [CallBegin, CallNewContext]"
  using Atomic_factory_fails [where do = "do", OF assms]
  by (simp add: result_def calls_def returns_error_Is_def stateRollbackError_marker
      stateRollbackError_cause)

theorem Atomic_factory_failure_no_rollback_witness:
  "returns_error_Is
     (result (Atomic (ex_uow_with None None (Returns (ex_actx, Some ex_E)) None)
                (Ambient 0) (ex_do [10] (Returns None)) ex_w0)) ex_E \<and>
   returns_error_Is
     (result (Atomic (ex_uow_with None None (Returns (ex_actx, Some ex_E)) None)
                (Ambient 0) (ex_do [10] (Returns None)) ex_w0)) ErrRollback \<and>
   count_list (calls (Atomic (ex_uow_with None None (Returns (ex_actx, Some ex_E)) None)
                (Ambient 0) (ex_do [10] (Returns None)) ex_w0)) CallRollback = 0"
  using Atomic_factory_failure_no_rollback
    [of "ex_uow_with None None (Returns (ex_actx, Some ex_E)) None" "Ambient 0" ex_w0
        "ex_tx None" ex_w0 ex_actx ex_E ex_w0 "ex_do [10] (Returns None)"]
  by (simp add: ex_defs)

text \<open>
  Claim C9. When the context factory panics with \<open>P\<close> after \<open>Begin\<close> has succeeded, the
  panic leaves \<open>Atomic\<close> and \<open>Rollback\<close> is not called: the deferred function that rolls back
  is installed after the factory has returned.
\<close>

theorem Atomic_factory_panic_no_rollback:
  assumes "Begin (db uow) ctx w = ((tx, None), w1)"
    and "newContext uow tx w1 = (Panics P, w2)"
  shows "result (Atomic uow ctx do w) = Panics P \<and>
         count_list (calls (Atomic uow ctx do w)) CallRollback = 0 \<and>
         calls (Atomic uow ctx do w) = [CallBegin, CallNewContext]"
  using Atomic_factory_panics [where do = "do", OF assms]
  by (simp add: result_def calls_def)

theorem Atomic_factory_panic_no_rollback_witness:
  "result (Atomic (ex_uow_with None None (Panics 99) None)
             (Ambient 0) (ex_do [10] (Returns None)) ex_w0) = Panics 99 \<and>
   count_list (calls (Atomic (ex_uow_with None None (Panics 99) None)
             (Ambient 0) (ex_do [10] (Returns None)) ex_w0)) CallRollback = 0"
  using Atomic_factory_panic_no_rollback
    [of "ex_uow_with None None (Panics 99) None" "Ambient 0" ex_w0
        "ex_tx None" ex_w0 99 ex_w0 "ex_do [10] (Returns None)"]
  by (simp add: ex_defs)

section \<open>Publication\<close>

text \<open>
  Claim C5, as stated, fails: it says that the error returned when the sink fails with \<open>G\<close>
  never matches \<open>ErrRollback\<close>. \<open>Atomic\<close> returns \<open>G\<close> as it is, so the error matches
  \<open>ErrRollback\<close> when \<open>G\<close> does. Here the body returns nil and the sink fails with the error of
  a nested unit of work that was rolled back.
\<close>

theorem Atomic_publish_error_may_carry_marker:
  "ex_do [10] (Returns None) (WithCancel (Ambient 0)) ex_actx ex_w0
     = (Returns None, ex_w0\<lparr>buffer := [10]\<rparr>) \<and>
   PublishEvents (msgBus (ex_uow_with None None (Returns (ex_actx, None)) (Some ex_nested)))
      [10] ex_w0 = (Some ex_nested, ex_w0) \<and>
   result (Atomic (ex_uow_with None None (Returns (ex_actx, None)) (Some ex_nested))
             (Ambient 0) (ex_do [10] (Returns None)) ex_w0) = Returns (Some ex_nested) \<and>
   returns_error_Is
     (result (Atomic (ex_uow_with None None (Returns (ex_actx, None)) (Some ex_nested))
                (Ambient 0) (ex_do [10] (Returns None)) ex_w0)) ErrRollback"
  by (simp add: ex_defs Atomic_def invoke_def run_do_def deferred_cancel_def
      deferred_recover_def logger_Error_def result_def returns_error_Is_def ErrRollback_def)

text \<open>
  Claim C5, amended. When the body returns nil and \<open>PublishEvents\<close> fails with \<open>G\<close>,
  \<open>Atomic\<close> returns \<open>G\<close> itself: the error returned matches \<open>G\<close>, it matches \<open>ErrRollback\<close>
  exactly when \<open>G\<close> does (no marker is added), and \<open>Rollback\<close> is not called.
\<close>

theorem Atomic_publish_error_returned_as_is:
  assumes "Begin (db uow) ctx w = ((tx, None), w1)"
    and "newContext uow tx w1 = (Returns (actx, None), w2)"
    and "do (WithCancel ctx) actx w2 = (Returns None, w3)"
    and "CollectEvents actx w3 = (es, w4)"
    and "PublishEvents (msgBus uow) es w4 = (Some G, w5)"
  shows "result (Atomic uow ctx do w) = Returns (Some G) \<and>
         returns_error_Is (result (Atomic uow ctx do w)) G \<and>
         (returns_error_Is (result (Atomic uow ctx do w)) ErrRollback
            \<longleftrightarrow> is_chain G ErrRollback) \<and>
         count_list (calls (Atomic uow ctx do w)) CallRollback = 0"
  using Atomic_do_ok [where do = "do", OF assms]
  by (simp add: result_def calls_def returns_error_Is_def is_chain_refl count_publish_log)

theorem Atomic_publish_error_returned_as_is_witness:
  "result (Atomic (ex_uow_with None None (Returns (ex_actx, None)) (Some ex_G))
             (Ambient 0) (ex_do [10] (Returns None)) ex_w0) = Returns (Some ex_G) \<and>
   returns_error_Is
     (result (Atomic (ex_uow_with None None (Returns (ex_actx, None)) (Some ex_G))
                (Ambient 0) (ex_do [10] (Returns None)) ex_w0)) ex_G \<and>
   \<not> returns_error_Is
     (result (Atomic (ex_uow_with None None (Returns (ex_actx, None)) (Some ex_G))
                (Ambient 0) (ex_do [10] (Returns None)) ex_w0)) ErrRollback \<and>
   count_list (calls (Atomic (ex_uow_with None None (Returns (ex_actx, None)) (Some ex_G))
                (Ambient 0) (ex_do [10] (Returns None)) ex_w0)) CallRollback = 0"
  using Atomic_publish_error_returned_as_is
    [of "ex_uow_with None None (Returns (ex_actx, None)) (Some ex_G)" "Ambient 0" ex_w0
        "ex_tx None" ex_w0 ex_actx ex_w0 "ex_do [10] (Returns None)"
        "ex_w0\<lparr>buffer := [10]\<rparr>" "[10]" ex_w0 ex_G ex_w0]
  by (simp add: ex_defs ErrRollback_def returns_error_Is_def)



section \<open>Rollback and publication over all runs\<close>



text \<open>
  Claim C8. No run of \<open>Atomic\<close> calls \<open>Commit\<close> or \<open>Close\<close> of the atomic context: neither
  on the success path nor on any other.
\<close>

theorem Atomic_never_commits_or_closes:
  "CallCommit \<notin> set (calls (Atomic uow ctx do w)) \<and>
   CallClose \<notin> set (calls (Atomic uow ctx do w))"
  by (auto simp add: calls_def Atomic_def invoke_def run_do_def deferred_cancel_def
      deferred_recover_def rollback_logged_eq rollback_log_def logger_Error_def
      split: prod.splits option.splits outcome.splits)

end
